theory Spec2Isabelle
  imports Complex_Main
begin

section \<open>The MIDI hub of magenta/interfaces/midi/midi\_hub.py\<close>

text \<open>
  A shallow embedding of the classes of \<^verbatim>\<open>midi_hub.py\<close>: \<^verbatim>\<open>MidiPlayer\<close>,
  \<^verbatim>\<open>MidiCaptor\<close> with its two subclasses, and \<^verbatim>\<open>MidiHub\<close>. Objects are records that
  are passed in and returned updated; a raised exception is a value of \<open>error\<close>. Wall-clock
  times are real numbers: the code only compares, copies and subtracts them. Every reading
  of \<^verbatim>\<open>time.time()\<close> is an argument \<open>now\<close> of the function that reads the clock.
\<close>

subsection \<open>Exceptions\<close>

datatype error =
    MidiHubException
  | AttributeError
  | IndexError
  | KeyError
  | AssertionError
  | RuntimeError

subsection \<open>Messages, notes and note sequences\<close>

text \<open>
  Modelled from the spec: the message type of the mido library, which is not under src/.
  The spec gives a message the fields kind, pitch, velocity, channel and time. mido gives a
  newly constructed message the time 0; this is the state the spec calls unset, and it is
  what the test \<^verbatim>\<open>not msg.time\<close> of the code detects.
\<close>

datatype msg_type = note_on | note_off | other_type

record message =
  msg_type :: msg_type
  msg_note :: int
  msg_velocity :: int
  msg_channel :: int
  msg_time :: real

definition time_unset :: "message \<Rightarrow> bool" where
  "time_unset m = (msg_time m = 0)"

text \<open>
  \<^verbatim>\<open>mido.Message(type, note=..., velocity=..., time=...)\<close>. The channel is not given by
  any caller in the file and is mido's default 0; a caller that leaves the velocity out
  gets mido's default, 64.
\<close>

definition default_velocity :: int where
  "default_velocity = 64"

definition Message :: "msg_type \<Rightarrow> int \<Rightarrow> int \<Rightarrow> real \<Rightarrow> message" where
  "Message ty n v t =
     \<lparr>msg_type = ty, msg_note = n, msg_velocity = v, msg_channel = 0, msg_time = t\<rparr>"

text \<open>\<^verbatim>\<open>mido.format_as_string(msg, include_time=False)\<close>: the message without its time.\<close>

definition format_as_string :: "message \<Rightarrow> msg_type \<times> int \<times> int \<times> int" where
  "format_as_string m = (msg_type m, msg_note m, msg_velocity m, msg_channel m)"

text \<open>
  Modelled from the spec: the messages \<^verbatim>\<open>NoteSequence\<close> and \<^verbatim>\<open>NoteSequence.Note\<close> of
  \<^verbatim>\<open>music_pb2\<close>, which is not under src/. A note has a pitch, a velocity, a start time
  and an end time; a numeric field that was never assigned reads 0, so an open note is one
  whose \<open>end_time\<close> is 0 (the code tests \<^verbatim>\<open>not note.end_time\<close>). A sequence has the tempo
  \<open>qpm\<close>, the \<open>total_time\<close> and the notes in order (the field \<open>seq_notes\<close>); \<open>tempos\<close>
  is the repeated field the player's constructor counts.
\<close>

record Note =
  pitch :: int
  velocity :: int
  start_time :: real
  end_time :: real

record note_sequence =
  tempos :: "real list"
  qpm :: real
  total_time :: real
  seq_notes :: "Note list"

definition NoteSequence :: "real \<Rightarrow> note_sequence" where
  "NoteSequence q = \<lparr>tempos = [], qpm = q, total_time = 0, seq_notes = []\<rparr>"

subsection \<open>Python sets of pitches\<close>

text \<open>
  A set of pitches is a list read as the set of its elements. \<open>set_pop\<close> takes the first
  element where Python takes an arbitrary one; the two agree on a set of one element.
\<close>

definition set_len :: "int list \<Rightarrow> nat" where
  "set_len xs = length (remdups xs)"

definition set_add :: "int \<Rightarrow> int list \<Rightarrow> int list" where
  "set_add x xs = (if x \<in> set xs then xs else xs @ [x])"

definition set_discard :: "int \<Rightarrow> int list \<Rightarrow> int list" where
  "set_discard x xs = removeAll x xs"

definition set_remove :: "int \<Rightarrow> int list \<Rightarrow> error + int list" where
  "set_remove x xs = (if x \<in> set xs then Inr (removeAll x xs) else Inl KeyError)"

definition set_pop :: "int list \<Rightarrow> error + (int \<times> int list)" where
  "set_pop xs = (case xs of [] \<Rightarrow> Inl KeyError | x # _ \<Rightarrow> Inr (x, removeAll x xs))"

subsection \<open>MidiCaptor\<close>

datatype texture = MONOPHONIC | POLYPHONIC

text \<open>A \<^verbatim>\<open>threading.Thread\<close>: not yet started, running, or ended.\<close>

datatype thread_state = Initial | Alive | Dead

text \<open>
  The fields of a captor. An element \<open>None\<close> of the queue is \<^verbatim>\<open>_WAKE_MESSAGE\<close>. The
  monophonic captor's \<^verbatim>\<open>_open_note\<close> and the values of the polyphonic captor's
  \<^verbatim>\<open>_open_notes\<close> are references to notes of the captured sequence: they are positions
  in its list of notes. \<open>captor_texture\<close> says which subclass the object is.
\<close>

record midi_captor =
  receive_queue :: "message option list"
  captured :: note_sequence
  captor_start_time :: real
  captor_stop_time :: "real option"
  captor_stop_signal :: "message option"
  captor_thread :: thread_state
  captor_texture :: texture
  open_note :: "nat option"
  captor_open_notes :: "int \<Rightarrow> nat option"

definition MidiCaptor_init ::
  "texture \<Rightarrow> real \<Rightarrow> real \<Rightarrow> real option \<Rightarrow> message option \<Rightarrow> midi_captor" where
  "MidiCaptor_init tx q start_t stop_t stop_sig =
     \<lparr>receive_queue = [], captured = NoteSequence q, captor_start_time = start_t,
      captor_stop_time = stop_t, captor_stop_signal = stop_sig, captor_thread = Initial,
      captor_texture = tx, open_note = None, captor_open_notes = (\<lambda>_. None)\<rparr>"

definition start :: "midi_captor \<Rightarrow> midi_captor" where
  "start c = c\<lparr>captor_thread := Alive\<rparr>"

definition is_alive :: "midi_captor \<Rightarrow> bool" where
  "is_alive c = (captor_thread c = Alive)"

text \<open>\<^verbatim>\<open>MidiCaptor.receive\<close>.\<close>

definition receive :: "midi_captor \<Rightarrow> message \<Rightarrow> error + midi_captor" where
  "receive c msg =
     (if msg_time msg = 0 then Inl MidiHubException
      else Inr (c\<lparr>receive_queue := receive_queue c @ [Some msg]\<rparr>))"

text \<open>
  \<^verbatim>\<open>_capture_message\<close> of the two subclasses. \<open>set_end_time i t\<close> is the assignment
  \<^verbatim>\<open>note.end_time = t\<close> through the reference \<open>i\<close>; \<open>add_note\<close> is
  \<^verbatim>\<open>notes.add()\<close> followed by the three assignments to the new note.
\<close>

definition set_end_time :: "nat \<Rightarrow> real \<Rightarrow> note_sequence \<Rightarrow> note_sequence" where
  "set_end_time i t s = s\<lparr>seq_notes := (seq_notes s)[i := (seq_notes s ! i)\<lparr>end_time := t\<rparr>]\<rparr>"

definition add_note :: "message \<Rightarrow> note_sequence \<Rightarrow> note_sequence" where
  "add_note msg s =
     s\<lparr>seq_notes := seq_notes s @
        [\<lparr>pitch = msg_note msg, velocity = msg_velocity msg,
          start_time = msg_time msg, end_time = 0\<rparr>]\<rparr>"

definition mono_capture_message :: "midi_captor \<Rightarrow> message \<Rightarrow> midi_captor" where
  "mono_capture_message c msg =
     (if msg_type msg = note_off \<or> (msg_type msg = note_on \<and> msg_velocity msg = 0) then
        (case open_note c of
           None \<Rightarrow> c
         | Some i \<Rightarrow>
             if msg_note msg \<noteq> pitch (seq_notes (captured c) ! i) then c
             else c\<lparr>captured := set_end_time i (msg_time msg) (captured c),
                    open_note := None\<rparr>)
      else if msg_type msg = note_on then
        (case open_note c of
           Some i \<Rightarrow>
             if pitch (seq_notes (captured c) ! i) = msg_note msg then c
             else c\<lparr>captured := add_note msg (set_end_time i (msg_time msg) (captured c)),
                    open_note := Some (length (seq_notes (captured c)))\<rparr>
         | None \<Rightarrow>
             c\<lparr>captured := add_note msg (captured c),
               open_note := Some (length (seq_notes (captured c)))\<rparr>)
      else c)"

definition poly_capture_message :: "midi_captor \<Rightarrow> message \<Rightarrow> midi_captor" where
  "poly_capture_message c msg =
     (if msg_type msg = note_off \<or> (msg_type msg = note_on \<and> msg_velocity msg = 0) then
        (case captor_open_notes c (msg_note msg) of
           None \<Rightarrow> c
         | Some i \<Rightarrow>
             c\<lparr>captured := set_end_time i (msg_time msg) (captured c),
               captor_open_notes := (captor_open_notes c)(msg_note msg := None)\<rparr>)
      else if msg_type msg = note_on then
        (case captor_open_notes c (msg_note msg) of
           Some _ \<Rightarrow> c
         | None \<Rightarrow>
             c\<lparr>captured := add_note msg (captured c),
               captor_open_notes :=
                 (captor_open_notes c)(msg_note msg := Some (length (seq_notes (captured c))))\<rparr>)
      else c)"

definition capture_message :: "midi_captor \<Rightarrow> message \<Rightarrow> midi_captor" where
  "capture_message c msg =
     (case captor_texture c of
        MONOPHONIC \<Rightarrow> mono_capture_message c msg
      | POLYPHONIC \<Rightarrow> poly_capture_message c msg)"

text \<open>
  \<^verbatim>\<open>MidiCaptor.captured_sequence\<close>. \<open>close_notes\<close> is its loop over the notes of the
  copy: the first note whose own start time is greater than its own end time ends the loop
  and is deleted with every note after it; any other note that is open, or ends after
  \<open>end_t\<close>, gets the end time \<open>end_t\<close>.
\<close>

fun close_notes :: "real \<Rightarrow> Note list \<Rightarrow> Note list" where
  "close_notes end_t [] = []"
| "close_notes end_t (n # ns) =
     (if start_time n > end_time n then []
      else (if end_time n = 0 \<or> end_time n > end_t then n\<lparr>end_time := end_t\<rparr> else n)
             # close_notes end_t ns)"

definition captured_sequence :: "midi_captor \<Rightarrow> real option \<Rightarrow> error + note_sequence" where
  "captured_sequence c end_t =
     (let current_captured_sequence = captured c in
      if is_alive c then
        (case end_t of
           None \<Rightarrow> Inl MidiHubException
         | Some e \<Rightarrow>
             Inr (current_captured_sequence
                    \<lparr>seq_notes := close_notes e (seq_notes current_captured_sequence),
                     total_time := e\<rparr>))
      else
        (case end_t of
           Some _ \<Rightarrow> Inl MidiHubException
         | None \<Rightarrow> Inr current_captured_sequence))"

text \<open>
  The attribute \<^verbatim>\<open>_stop_message\<close> that \<^verbatim>\<open>run\<close> reads. The constructor stores the
  signal under the name \<^verbatim>\<open>_stop_signal\<close>, and no statement of the class or of its
  subclasses assigns \<^verbatim>\<open>_stop_message\<close>: reading it raises \<^verbatim>\<open>AttributeError\<close>.
\<close>

definition stop_message :: "midi_captor \<Rightarrow> error + message option" where
  "stop_message c = Inl AttributeError"

text \<open>
  Modelled from the spec: the comparison \<^verbatim>\<open>==\<close> of mido messages, which is not under
  src/. The spec has a message match the stop signal when the two agree on kind, pitch,
  velocity and channel, the time ignored.
\<close>

definition message_eq :: "message \<Rightarrow> message option \<Rightarrow> bool" where
  "message_eq msg sig =
     (case sig of None \<Rightarrow> False | Some s \<Rightarrow> format_as_string msg = format_as_string s)"

text \<open>
  \<^verbatim>\<open>MidiCaptor.run\<close>. The thread either is suspended in \<^verbatim>\<open>get\<close> on an empty queue
  (\<open>Blocked\<close>), has died of an exception (\<open>Raised\<close>), or has left the loop and stored the
  final sequence (\<open>Finished\<close>). \<open>run_loop now q c\<close> runs the loop at clock \<open>now\<close> on the
  queue \<open>q\<close> until one of the three happens; a blocked thread is resumed by running the
  loop again, at the later clock.

  \<open>deadline\<close> is the test of the stop time at the head of the loop: it gives the stop time
  when the loop has to be left. \<open>final_end_time\<close> is the \<^verbatim>\<open>end_time\<close> computed after the
  loop, and \<open>finish_capture\<close> the assignment of the closed sequence that ends the thread.
\<close>

datatype run_result =
    Blocked midi_captor
  | Raised error midi_captor
  | Finished midi_captor

definition deadline :: "real \<Rightarrow> midi_captor \<Rightarrow> real option" where
  "deadline now c =
     (case captor_stop_time c of
        None \<Rightarrow> None
      | Some t \<Rightarrow> if t - now \<le> 0 then Some t else None)"

definition final_end_time :: "midi_captor \<Rightarrow> message \<Rightarrow> real" where
  "final_end_time c msg = (case captor_stop_time c of Some t \<Rightarrow> t | None \<Rightarrow> msg_time msg)"

definition finish_capture :: "real \<Rightarrow> midi_captor \<Rightarrow> run_result" where
  "finish_capture end_t c =
     (case captured_sequence c (Some end_t) of
        Inl e \<Rightarrow> Raised e (c\<lparr>captor_thread := Dead\<rparr>)
      | Inr s \<Rightarrow> Finished (c\<lparr>captured := s, captor_thread := Dead\<rparr>))"

fun run_loop :: "real \<Rightarrow> message option list \<Rightarrow> midi_captor \<Rightarrow> run_result" where
  "run_loop now [] c =
     (case deadline now c of
        Some t \<Rightarrow> finish_capture t (c\<lparr>receive_queue := []\<rparr>)
      | None \<Rightarrow> Blocked (c\<lparr>receive_queue := []\<rparr>))"
| "run_loop now (item # rest) c =
     (case deadline now c of
        Some t \<Rightarrow> finish_capture t (c\<lparr>receive_queue := item # rest\<rparr>)
      | None \<Rightarrow>
          (case item of
             None \<Rightarrow> run_loop now rest c
           | Some msg \<Rightarrow>
               if msg_time msg \<le> captor_start_time c then run_loop now rest c
               else
                 (case stop_message c of
                    Inl e \<Rightarrow> Raised e (c\<lparr>receive_queue := rest, captor_thread := Dead\<rparr>)
                  | Inr sig \<Rightarrow>
                      if message_eq msg sig
                      then finish_capture (final_end_time c msg) (c\<lparr>receive_queue := rest\<rparr>)
                      else run_loop now rest (capture_message c msg))))"

definition captor_run :: "real \<Rightarrow> midi_captor \<Rightarrow> run_result" where
  "captor_run now c = run_loop now (receive_queue c) c"

text \<open>
  \<^verbatim>\<open>Thread.join\<close> on a captor, when no further message arrives: a thread that was never
  started makes \<^verbatim>\<open>join\<close> raise \<^verbatim>\<open>RuntimeError\<close>; an ended thread lets it return at
  once; a running thread works through its queue at clock \<open>now\<close> and, if it then blocks
  with a stop time set, wakes once more at the stop time. \<open>None\<close> says that \<^verbatim>\<open>join\<close> does
  not return: the thread stays blocked in \<^verbatim>\<open>get\<close> with no timeout.
\<close>

definition ended :: "run_result \<Rightarrow> midi_captor option" where
  "ended r = (case r of Blocked _ \<Rightarrow> None | Raised _ c \<Rightarrow> Some c | Finished c \<Rightarrow> Some c)"

definition run_to_end :: "real \<Rightarrow> midi_captor \<Rightarrow> midi_captor option" where
  "run_to_end now c =
     (case captor_run now c of
        Raised _ c' \<Rightarrow> Some c'
      | Finished c' \<Rightarrow> Some c'
      | Blocked c' \<Rightarrow>
          (case captor_stop_time c' of
             None \<Rightarrow> None
           | Some t \<Rightarrow> ended (captor_run t c')))"

definition join :: "real \<Rightarrow> midi_captor \<Rightarrow> (error + midi_captor) option" where
  "join now c =
     (case captor_thread c of
        Initial \<Rightarrow> Some (Inl RuntimeError)
      | Dead \<Rightarrow> Some (Inr c)
      | Alive \<Rightarrow> map_option Inr (run_to_end now c))"

text \<open>
  \<^verbatim>\<open>MidiCaptor.stop\<close>. Its guard is \<^verbatim>\<open>if not self.is_alive\<close>: the method is named, not
  called, and a bound method is true as a condition whatever the state of the thread.
\<close>

definition is_alive_method :: "midi_captor \<Rightarrow> bool" where
  "is_alive_method c = True"

definition captor_stop ::
  "real \<Rightarrow> midi_captor \<Rightarrow> real option \<Rightarrow> (error + midi_captor) option" where
  "captor_stop now c stop_t =
     (if \<not> is_alive_method c then Some (Inl MidiHubException)
      else
        let c1 = c\<lparr>captor_stop_time := Some (case stop_t of None \<Rightarrow> now | Some t \<Rightarrow> t)\<rparr>;
            c2 = c1\<lparr>receive_queue := receive_queue c1 @ [None]\<rparr>
        in join now c2)"

subsection \<open>MidiPlayer\<close>

text \<open>
  The fields of a player: the messages sent to the output port so far, the set of pitches
  that are on, the queue of messages still to send, and the flag \<^verbatim>\<open>_allow_updates\<close>.
\<close>

record midi_player =
  outport :: "message list"
  open_notes :: "int list"
  message_queue :: "message list"
  allow_updates :: bool

text \<open>
  The attribute \<^verbatim>\<open>_playhead\<close> that \<^verbatim>\<open>update_sequence\<close> reads. The method keeps the
  clock in the local variable \<^verbatim>\<open>playhead\<close>, and no statement of the class assigns
  \<^verbatim>\<open>self._playhead\<close>: reading it raises \<^verbatim>\<open>AttributeError\<close>.
\<close>

definition playhead_attr :: "midi_player \<Rightarrow> error + real" where
  "playhead_attr p = Inl AttributeError"

text \<open>
  \<^verbatim>\<open>MidiPlayer.update_sequence\<close>. \<open>scan_notes\<close> is the loop over the notes of the new
  sequence, carrying \<^verbatim>\<open>new_message_list\<close> and \<^verbatim>\<open>notes_to_close\<close>; in the condition
  \<^verbatim>\<open>note.start_time < self._playhead and ...\<close> the attribute is read first.
  \<open>carry_over\<close> is the loop over the old queue.
\<close>

fun scan_notes ::
  "real \<Rightarrow> midi_player \<Rightarrow> Note list \<Rightarrow> message list \<times> int list
     \<Rightarrow> error + (message list \<times> int list)" where
  "scan_notes playhead p [] acc = Inr acc"
| "scan_notes playhead p (n # ns) (new_message_list, notes_to_close) =
     (let l1 = (if start_time n \<ge> playhead
                then new_message_list @ [Message note_on (pitch n) (velocity n) (start_time n)]
                else new_message_list)
      in if end_time n \<ge> playhead then
           (let l2 = l1 @ [Message note_off (pitch n) default_velocity (end_time n)]
            in case playhead_attr p of
                 Inl e \<Rightarrow> Inl e
               | Inr self_playhead \<Rightarrow>
                   if start_time n < self_playhead \<and> pitch n \<notin> set (open_notes p)
                   then scan_notes playhead p ns (l2, set_add (pitch n) notes_to_close)
                   else scan_notes playhead p ns (l2, notes_to_close))
         else scan_notes playhead p ns (l1, notes_to_close))"

fun carry_over :: "message list \<Rightarrow> message list \<times> int list \<Rightarrow> error + message list" where
  "carry_over [] (new_message_list, notes_to_close) = Inr new_message_list"
| "carry_over (msg # q) (new_message_list, notes_to_close) =
     (if notes_to_close = [] then Inr new_message_list
      else if msg_note msg \<in> set notes_to_close then
        (if msg_type msg \<noteq> note_off then Inl AssertionError
         else case set_remove (msg_note msg) notes_to_close of
                Inl e \<Rightarrow> Inl e
              | Inr rest \<Rightarrow> carry_over q (new_message_list @ [msg], rest))
      else carry_over q (new_message_list, notes_to_close))"

definition update_sequence :: "real \<Rightarrow> midi_player \<Rightarrow> note_sequence \<Rightarrow> error + midi_player" where
  "update_sequence playhead p sequence =
     (if \<not> allow_updates p then Inl MidiHubException
      else
        case scan_notes playhead p (seq_notes sequence) ([], []) of
          Inl e \<Rightarrow> Inl e
        | Inr acc \<Rightarrow>
            (case carry_over (message_queue p) acc of
               Inl e \<Rightarrow> Inl e
             | Inr new_message_list \<Rightarrow>
                 Inr (p\<lparr>message_queue := sort_key msg_time new_message_list\<rparr>)))"

text \<open>\<^verbatim>\<open>MidiPlayer.__init__\<close>, at clock \<open>now\<close>, for the output port \<open>out\<close>.\<close>

definition MidiPlayer_init ::
  "real \<Rightarrow> message list \<Rightarrow> note_sequence \<Rightarrow> bool \<Rightarrow> error + midi_player" where
  "MidiPlayer_init now out sequence allow =
     (if length (tempos sequence) \<noteq> 1 then Inl MidiHubException
      else
        case update_sequence now
               \<lparr>outport = out, open_notes = [], message_queue = [], allow_updates = True\<rparr>
               sequence of
          Inl e \<Rightarrow> Inl e
        | Inr p \<Rightarrow> Inr (p\<lparr>allow_updates := allow\<rparr>))"

text \<open>
  \<^verbatim>\<open>MidiPlayer.run\<close>. \<open>discard_past\<close> is its first loop,
  \<^verbatim>\<open>while self._message_queue[0].time < time.time(): popleft()\<close>, where indexing an
  empty deque raises \<^verbatim>\<open>IndexError\<close>.

  \<open>run_step\<close> is one pass of the body of \<^verbatim>\<open>while True\<close> from the test of the inner
  \<^verbatim>\<open>while self._message_queue\<close> on. With a message in the queue the thread waits for
  its time (\<open>Wait (Some timeout)\<close>) or sends it; with the queue empty it waits for an update
  (\<open>Wait None\<close>) when updates are allowed and otherwise falls through to the next pass of
  \<^verbatim>\<open>while True\<close>, which has no \<^verbatim>\<open>break\<close> and no \<^verbatim>\<open>return\<close>. After either wait
  the thread is back at the same test. \<open>Fail\<close> is an exception that ends the thread.
\<close>

fun discard_past :: "real \<Rightarrow> message list \<Rightarrow> error + message list" where
  "discard_past now [] = Inl IndexError"
| "discard_past now (m # q) = (if msg_time m < now then discard_past now q else Inr (m # q))"

datatype player_status = Continue | Wait "real option" | Fail error

definition run_step :: "real \<Rightarrow> midi_player \<Rightarrow> player_status \<times> midi_player" where
  "run_step now p =
     (case message_queue p of
        [] \<Rightarrow> if allow_updates p then (Wait None, p) else (Continue, p)
      | next_msg # rest \<Rightarrow>
          if now < msg_time next_msg then (Wait (Some (msg_time next_msg - now)), p)
          else
            let p1 = p\<lparr>message_queue := rest\<rparr> in
            if msg_type next_msg = note_on then
              (Continue, p1\<lparr>open_notes := set_add (msg_note next_msg) (open_notes p1),
                            outport := outport p1 @ [next_msg]\<rparr>)
            else if msg_type next_msg = note_off then
              (case set_remove (msg_note next_msg) (open_notes p1) of
                 Inl e \<Rightarrow> (Fail e, p1)
               | Inr s \<Rightarrow> (Continue, p1\<lparr>open_notes := s, outport := outport p1 @ [next_msg]\<rparr>))
            else (Continue, p1\<lparr>outport := outport p1 @ [next_msg]\<rparr>))"

text \<open>
  The loop for at most \<open>k\<close> passes while the thread neither waits nor fails: \<open>None\<close> says
  that after \<open>k\<close> passes the thread is still running.
\<close>

fun run_main :: "nat \<Rightarrow> real \<Rightarrow> midi_player \<Rightarrow> (player_status \<times> midi_player) option" where
  "run_main 0 now p = None"
| "run_main (Suc k) now p =
     (case run_step now p of
        (Continue, p') \<Rightarrow> run_main k now p'
      | (Wait t, p') \<Rightarrow> Some (Wait t, p')
      | (Fail e, p') \<Rightarrow> Some (Fail e, p'))"

definition player_run ::
  "nat \<Rightarrow> real \<Rightarrow> midi_player \<Rightarrow> (player_status \<times> midi_player) option" where
  "player_run k now p =
     (case discard_past now (message_queue p) of
        Inl e \<Rightarrow> Some (Fail e, p\<lparr>message_queue := []\<rparr>)
      | Inr q \<Rightarrow> run_main k now (p\<lparr>message_queue := q\<rparr>))"

text \<open>
  \<^verbatim>\<open>MidiPlayer.stop\<close>, called at clock \<open>now\<close> while the playback thread is suspended in
  one of its waits. \<open>stop_locked\<close> is the part under the lock; then the playback thread
  resumes and \<^verbatim>\<open>join\<close> returns when that thread has ended, which \<open>run_step\<close> allows
  through an exception only. \<open>None\<close> says that within \<open>k\<close> passes of the loop the thread
  has not ended.
\<close>

definition stop_locked :: "real \<Rightarrow> midi_player \<Rightarrow> midi_player" where
  "stop_locked now p =
     p\<lparr>allow_updates := False,
       message_queue :=
         map (\<lambda>n. Message note_off n default_velocity now) (remdups (open_notes p))\<rparr>"

definition player_stop :: "nat \<Rightarrow> real \<Rightarrow> midi_player \<Rightarrow> midi_player option" where
  "player_stop k now p =
     (case run_main k now (stop_locked now p) of
        None \<Rightarrow> None
      | Some (Continue, p') \<Rightarrow> None
      | Some (Wait t, p') \<Rightarrow> None
      | Some (Fail e, p') \<Rightarrow> Some p')"

subsection \<open>MidiHub\<close>

text \<open>
  The fields of a hub. \<open>signals\<close> holds the keys of the dictionary of condition
  variables, \<open>notified\<close> the keys whose condition was notified, in order;
  \<open>hub_outport\<close> holds the messages sent to the output port, in order.
\<close>

record midi_hub =
  hub_texture_type :: texture
  hub_passthrough :: bool
  hub_open_notes :: "int list"
  signals :: "(msg_type \<times> int \<times> int \<times> int) list"
  notified :: "(msg_type \<times> int \<times> int \<times> int) list"
  capture_threads :: "midi_captor list"
  hub_outport :: "message list"

definition MidiHub_init :: "texture \<Rightarrow> bool \<Rightarrow> midi_hub" where
  "MidiHub_init tx pt =
     \<lparr>hub_texture_type = tx, hub_passthrough = pt, hub_open_notes = [], signals = [],
      notified = [], capture_threads = [], hub_outport = []\<rparr>"

definition send :: "message \<Rightarrow> midi_hub \<Rightarrow> midi_hub" where
  "send msg h = h\<lparr>hub_outport := hub_outport h @ [msg]\<rparr>"

text \<open>
  The loop \<^verbatim>\<open>for t in self._capture_threads: t.receive(msg.copy())\<close>: the captors as
  the loop leaves them, and the exception that ended it, if any.
\<close>

fun deliver :: "midi_captor list \<Rightarrow> message \<Rightarrow> midi_captor list \<times> error option" where
  "deliver [] msg = ([], None)"
| "deliver (t # ts) msg =
     (case receive t msg of
        Inl e \<Rightarrow> (t # ts, Some e)
      | Inr t' \<Rightarrow> (case deliver ts msg of (ts', r) \<Rightarrow> (t' # ts', r)))"

text \<open>
  \<^verbatim>\<open>self._open_notes.remove(msg)\<close> in the monophonic branch: the argument is the
  message, not its pitch. The set holds pitches and a message is none, so \<^verbatim>\<open>remove\<close>
  finds no such element and raises \<^verbatim>\<open>KeyError\<close>.
\<close>

definition remove_message :: "message \<Rightarrow> int list \<Rightarrow> error + int list" where
  "remove_message msg xs = Inl KeyError"

text \<open>
  \<^verbatim>\<open>MidiHub._handle_message\<close>: the hub as the call leaves it, and the exception it
  raised, if any. \<open>passthrough_message\<close> is its last part, from the comment
  \<^verbatim>\<open># Pass the message through to the output port, if appropriate.\<close> on.
\<close>

definition passthrough_message :: "midi_hub \<Rightarrow> message \<Rightarrow> midi_hub \<times> error option" where
  "passthrough_message h msg =
     (if \<not> hub_passthrough h then (h, None)
      else if hub_texture_type h = POLYPHONIC then
        (let h1 =
           (if msg_type msg = note_on
            then h\<lparr>hub_open_notes := set_add (msg_note msg) (hub_open_notes h)\<rparr>
            else if msg_type msg = note_off
            then h\<lparr>hub_open_notes := set_discard (msg_note msg) (hub_open_notes h)\<rparr>
            else h)
         in (send msg h1, None))
      else if \<not> set_len (hub_open_notes h) \<le> 1 then (h, Some AssertionError)
      else if msg_type msg \<noteq> note_on \<and> msg_type msg \<noteq> note_off then (send msg h, None)
      else if msg_type msg = note_off \<and> msg_note msg \<in> set (hub_open_notes h) then
        (let h1 = send msg h
         in case remove_message msg (hub_open_notes h1) of
              Inl e \<Rightarrow> (h1, Some e)
            | Inr s \<Rightarrow> (h1\<lparr>hub_open_notes := s\<rparr>, None))
      else if msg_type msg = note_on then
        (if hub_open_notes h \<noteq> [] then
           (case set_pop (hub_open_notes h) of
              Inl e \<Rightarrow> (h, Some e)
            | Inr (x, rest) \<Rightarrow>
                (let h1 = send (Message note_off x default_velocity 0)
                            (h\<lparr>hub_open_notes := rest\<rparr>);
                     h2 = send msg h1
                 in (h2\<lparr>hub_open_notes := set_add (msg_note msg) (hub_open_notes h2)\<rparr>,
                     None)))
         else
           (let h2 = send msg h
            in (h2\<lparr>hub_open_notes := set_add (msg_note msg) (hub_open_notes h2)\<rparr>, None)))
      else (h, None))"

definition handle_message :: "midi_hub \<Rightarrow> message \<Rightarrow> midi_hub \<times> error option" where
  "handle_message h msg =
     (let h1 = (if format_as_string msg \<in> set (signals h)
                then h\<lparr>notified := notified h @ [format_as_string msg]\<rparr>
                else h)
      in case deliver (filter is_alive (capture_threads h1)) msg of
           (ts, Some e) \<Rightarrow> (h1\<lparr>capture_threads := ts\<rparr>, Some e)
         | (ts, None) \<Rightarrow> passthrough_message (h1\<lparr>capture_threads := ts\<rparr>) msg)"

text \<open>
  The messages of \<open>msgs\<close> dispatched one after the other; an exception ends the dispatch
  of its message and leaves the hub as it was at the raise.
\<close>

definition handle_messages :: "midi_hub \<Rightarrow> message list \<Rightarrow> midi_hub" where
  "handle_messages h msgs = foldl (\<lambda>h' m. fst (handle_message h' m)) h msgs"

text \<open>
  \<^verbatim>\<open>MidiHub.start_capture\<close> and \<^verbatim>\<open>MidiHub.capture_sequence\<close>, called at clock \<open>now\<close>.
  \<^verbatim>\<open>capture_sequence(qpm, start_time, ...)\<close> calls
  \<^verbatim>\<open>self.start_capture(start_time, qpm, stop_time, stop_signal)\<close>. \<open>None\<close> says that
  the call does not return.
\<close>

definition start_capture ::
  "midi_hub \<Rightarrow> real \<Rightarrow> real \<Rightarrow> real option \<Rightarrow> message option \<Rightarrow> midi_hub \<times> midi_captor" where
  "start_capture h q start_t stop_t stop_sig =
     (let captor = start (MidiCaptor_init (hub_texture_type h) q start_t stop_t stop_sig)
      in (h\<lparr>capture_threads := capture_threads h @ [captor]\<rparr>, captor))"

definition capture_sequence ::
  "real \<Rightarrow> midi_hub \<Rightarrow> real \<Rightarrow> real \<Rightarrow> real option \<Rightarrow> message option
     \<Rightarrow> (error + note_sequence) option" where
  "capture_sequence now h q start_t stop_t stop_sig =
     (if stop_t = None \<and> stop_sig = None then Some (Inl MidiHubException)
      else
        case join now (snd (start_capture h start_t q stop_t stop_sig)) of
          None \<Rightarrow> None
        | Some (Inl e) \<Rightarrow> Some (Inl e)
        | Some (Inr captor) \<Rightarrow> Some (captured_sequence captor None))"

text \<open>
  What the specification says \<^verbatim>\<open>capture_sequence\<close> returns when a stop time or a stop
  signal is given: the sequence of \<^verbatim>\<open>start_capture(qpm, start_time, stop_time,
  stop_signal)\<close>, joined, then read with \<^verbatim>\<open>captured_sequence()\<close>.
\<close>

definition capture_sequence_spec ::
  "real \<Rightarrow> midi_hub \<Rightarrow> real \<Rightarrow> real \<Rightarrow> real option \<Rightarrow> message option
     \<Rightarrow> (error + note_sequence) option" where
  "capture_sequence_spec now h q start_t stop_t stop_sig =
     (case join now (snd (start_capture h q start_t stop_t stop_sig)) of
        None \<Rightarrow> None
      | Some (Inl e) \<Rightarrow> Some (Inl e)
      | Some (Inr captor) \<Rightarrow> Some (captured_sequence captor None))"

section \<open>Properties\<close>

subsection \<open>MidiCaptor.receive\<close>

text \<open>
  C9. For every message, \<^verbatim>\<open>receive\<close> raises the hub exception exactly when the
  message's time is unset; otherwise it puts the message at the back of the captor's
  inbound queue and changes nothing else.
\<close>

theorem receive_raises_iff_time_unset:
  "(receive c msg = Inl MidiHubException) = time_unset msg \<and>
   (\<forall>e. receive c msg = Inl e \<longrightarrow> e = MidiHubException) \<and>
   (\<not> time_unset msg \<longrightarrow>
      receive c msg = Inr (c\<lparr>receive_queue := receive_queue c @ [Some msg]\<rparr>))"
  by (simp add: receive_def time_unset_def)

theorem receive_raises_iff_time_unset_witness:
  "receive (MidiCaptor_init MONOPHONIC 120 0 None None) (Message note_on 60 100 0)
     = Inl MidiHubException \<and>
   receive (MidiCaptor_init MONOPHONIC 120 0 None None) (Message note_on 60 100 5)
     = Inr ((MidiCaptor_init MONOPHONIC 120 0 None None)
              \<lparr>receive_queue := [Some (Message note_on 60 100 5)]\<rparr>)"
  using receive_raises_iff_time_unset
          [of "MidiCaptor_init MONOPHONIC 120 0 None None" "Message note_on 60 100 0"]
        receive_raises_iff_time_unset
          [of "MidiCaptor_init MONOPHONIC 120 0 None None" "Message note_on 60 100 5"]
  by (simp add: time_unset_def Message_def MidiCaptor_init_def)

subsection \<open>MidiCaptor.captured\_sequence\<close>

text \<open>
  C2. On a running captor, \<^verbatim>\<open>captured_sequence(end_time)\<close> is documented to close every
  open note at \<open>end_time\<close>, to drop the notes that start after \<open>end_time\<close> and to clip the
  notes that end after it. The loop compares a note's start time with the note's own end
  time instead. Three runs of the code, each on notes that \<^verbatim>\<open>_capture_message\<close> itself
  recorded: an open note that starts at 0 is closed at 1.5 and the total time is 1.5 (the
  example of the specification); an open note that starts at 1 is deleted instead of being
  closed at 1.5; a note from 2 to 3 is kept and given the end time 1.5 instead of being
  dropped.
\<close>

theorem captured_sequence_compares_with_own_end_time:
  "captured_sequence
     (capture_message (start (MidiCaptor_init MONOPHONIC 120 0 None None))
        (Message note_on 60 100 0)) (Some 1.5)
   = Inr \<lparr>tempos = [], qpm = 120, total_time = 1.5,
          seq_notes = [\<lparr>pitch = 60, velocity = 100, start_time = 0, end_time = 1.5\<rparr>]\<rparr> \<and>
   captured_sequence
     (capture_message (start (MidiCaptor_init MONOPHONIC 120 0 None None))
        (Message note_on 60 100 1)) (Some 1.5)
   = Inr \<lparr>tempos = [], qpm = 120, total_time = 1.5, seq_notes = []\<rparr> \<and>
   captured_sequence
     (capture_message
        (capture_message (start (MidiCaptor_init MONOPHONIC 120 0 None None))
           (Message note_on 60 100 2))
        (Message note_off 60 0 3)) (Some 1.5)
   = Inr \<lparr>tempos = [], qpm = 120, total_time = 1.5,
          seq_notes = [\<lparr>pitch = 60, velocity = 100, start_time = 2, end_time = 1.5\<rparr>]\<rparr>"
  by (simp add: captured_sequence_def capture_message_def mono_capture_message_def
        add_note_def set_end_time_def start_def is_alive_def MidiCaptor_init_def
        NoteSequence_def Message_def)

subsection \<open>MidiCaptor.stop\<close>

text \<open>
  C7. \<^verbatim>\<open>stop\<close> is documented to raise the hub exception on a captor that is not
  running. Its guard tests the method object and never fires: \<^verbatim>\<open>stop\<close> raises the hub
  exception for no captor at all. On a captor whose thread has ended (here: by reaching
  its stop time 20) the call at clock 30 returns normally, having overwritten the stop time
  and put a wake token in the queue; on a captor that was never started it is \<^verbatim>\<open>join\<close>
  that raises, a \<^verbatim>\<open>RuntimeError\<close>.
\<close>

theorem captor_stop_never_raises_hub_exception:
  "captor_stop now c stop_t \<noteq> Some (Inl MidiHubException) \<and>
   run_to_end 25 (start (MidiCaptor_init MONOPHONIC 120 10 (Some 20) None))
     = Some \<lparr>receive_queue = [], captured = (NoteSequence 120)\<lparr>total_time := 20\<rparr>,
             captor_start_time = 10, captor_stop_time = Some 20, captor_stop_signal = None,
             captor_thread = Dead, captor_texture = MONOPHONIC, open_note = None,
             captor_open_notes = (\<lambda>_. None)\<rparr> \<and>
   captor_stop 30
     \<lparr>receive_queue = [], captured = (NoteSequence 120)\<lparr>total_time := 20\<rparr>,
      captor_start_time = 10, captor_stop_time = Some 20, captor_stop_signal = None,
      captor_thread = Dead, captor_texture = MONOPHONIC, open_note = None,
      captor_open_notes = (\<lambda>_. None)\<rparr> None
     = Some (Inr \<lparr>receive_queue = [None], captured = (NoteSequence 120)\<lparr>total_time := 20\<rparr>,
             captor_start_time = 10, captor_stop_time = Some 30, captor_stop_signal = None,
             captor_thread = Dead, captor_texture = MONOPHONIC, open_note = None,
             captor_open_notes = (\<lambda>_. None)\<rparr>) \<and>
   captor_stop 30 (MidiCaptor_init MONOPHONIC 120 10 None None) None
     = Some (Inl RuntimeError)"
proof -
  have general: "captor_stop now c stop_t \<noteq> Some (Inl MidiHubException)"
    by (cases "captor_thread c")
       (auto simp: captor_stop_def is_alive_method_def join_def Let_def)
  have finished:
    "run_to_end 25 (start (MidiCaptor_init MONOPHONIC 120 10 (Some 20) None))
     = Some \<lparr>receive_queue = [], captured = (NoteSequence 120)\<lparr>total_time := 20\<rparr>,
             captor_start_time = 10, captor_stop_time = Some 20, captor_stop_signal = None,
             captor_thread = Dead, captor_texture = MONOPHONIC, open_note = None,
             captor_open_notes = (\<lambda>_. None)\<rparr>"
    by (simp add: run_to_end_def captor_run_def deadline_def finish_capture_def
          captured_sequence_def is_alive_def start_def MidiCaptor_init_def NoteSequence_def)
  have dead:
    "captor_stop 30
       \<lparr>receive_queue = [], captured = (NoteSequence 120)\<lparr>total_time := 20\<rparr>,
        captor_start_time = 10, captor_stop_time = Some 20, captor_stop_signal = None,
        captor_thread = Dead, captor_texture = MONOPHONIC, open_note = None,
        captor_open_notes = (\<lambda>_. None)\<rparr> None
     = Some (Inr \<lparr>receive_queue = [None], captured = (NoteSequence 120)\<lparr>total_time := 20\<rparr>,
             captor_start_time = 10, captor_stop_time = Some 30, captor_stop_signal = None,
             captor_thread = Dead, captor_texture = MONOPHONIC, open_note = None,
             captor_open_notes = (\<lambda>_. None)\<rparr>)"
    by (simp add: captor_stop_def is_alive_method_def join_def)
  have unstarted:
    "captor_stop 30 (MidiCaptor_init MONOPHONIC 120 10 None None) None
     = Some (Inl RuntimeError)"
    by (simp add: captor_stop_def is_alive_method_def join_def MidiCaptor_init_def)
  from general finished dead unstarted show ?thesis by blast
qed

subsection \<open>MidiCaptor.run\<close>

text \<open>
  C8. When the run loop takes from its queue a message dated after the start time, it
  reads the attribute \<^verbatim>\<open>_stop_message\<close>, which does not exist: the thread dies of an
  \<^verbatim>\<open>AttributeError\<close>, whether or not the message matches the stop signal, and the
  captured sequence is not closed. A message dated at or before the start time is skipped
  and the loop goes on with the rest of the queue.
\<close>

theorem run_loop_stop_signal_raises:
  "deadline now c = None \<Longrightarrow>
   (captor_start_time c < msg_time msg \<longrightarrow>
      run_loop now (Some msg # rest) c
        = Raised AttributeError (c\<lparr>receive_queue := rest, captor_thread := Dead\<rparr>)) \<and>
   (msg_time msg \<le> captor_start_time c \<longrightarrow>
      run_loop now (Some msg # rest) c = run_loop now rest c)"
  by (simp add: stop_message_def)

theorem run_loop_stop_signal_raises_witness:
  "run_loop 5 [Some (Message note_on 60 100 3)]
     (start (MidiCaptor_init MONOPHONIC 120 1 None (Some (Message note_on 60 100 0))))
   = Raised AttributeError
       ((start (MidiCaptor_init MONOPHONIC 120 1 None (Some (Message note_on 60 100 0))))
          \<lparr>receive_queue := [], captor_thread := Dead\<rparr>) \<and>
   run_loop 5 [Some (Message note_on 60 100 1)]
     (start (MidiCaptor_init MONOPHONIC 120 1 None (Some (Message note_on 60 100 0))))
   = Blocked
       ((start (MidiCaptor_init MONOPHONIC 120 1 None (Some (Message note_on 60 100 0))))
          \<lparr>receive_queue := []\<rparr>)"
proof -
  let ?c = "start (MidiCaptor_init MONOPHONIC 120 1 None (Some (Message note_on 60 100 0)))"
  have d: "deadline 5 ?c = None"
    by (simp add: deadline_def start_def MidiCaptor_init_def)
  have late: "captor_start_time ?c < msg_time (Message note_on 60 100 3)"
    by (simp add: start_def MidiCaptor_init_def Message_def)
  have early: "msg_time (Message note_on 60 100 1) \<le> captor_start_time ?c"
    by (simp add: start_def MidiCaptor_init_def Message_def)
  have idle: "run_loop 5 [] ?c = Blocked (?c\<lparr>receive_queue := []\<rparr>)"
    using d by simp
  from run_loop_stop_signal_raises [OF d, of "Message note_on 60 100 3" "[]"] late
  have one: "run_loop 5 [Some (Message note_on 60 100 3)] ?c
               = Raised AttributeError (?c\<lparr>receive_queue := [], captor_thread := Dead\<rparr>)"
    by blast
  from run_loop_stop_signal_raises [OF d, of "Message note_on 60 100 1" "[]"] early
  have two: "run_loop 5 [Some (Message note_on 60 100 1)] ?c = run_loop 5 [] ?c"
    by blast
  from one two idle show ?thesis by simp
qed

subsection \<open>MidiPlayer.update\_sequence\<close>

text \<open>
  Whatever the old queue holds, the loop over the new sequence fails on the first note that
  ends at or after the playhead, and a call that returns has queued note-ons only.
\<close>

lemma scan_notes_raises:
  "list_ex (\<lambda>n. end_time n \<ge> playhead) ns \<Longrightarrow> scan_notes playhead p ns acc = Inl AttributeError"
  by (induction playhead p ns acc rule: scan_notes.induct) (auto simp: playhead_attr_def Let_def)

lemma scan_notes_returns:
  "scan_notes playhead p ns (l, tc) = Inr (l', tc') \<Longrightarrow>
   list_all (\<lambda>m. msg_type m = note_on) l \<Longrightarrow>
   tc' = tc \<and> list_all (\<lambda>m. msg_type m = note_on) l'"
  by (induction playhead p ns "(l, tc)" arbitrary: l rule: scan_notes.induct)
     (auto simp: playhead_attr_def Let_def Message_def split: if_splits)

lemma update_sequence_queues_note_ons_only:
  assumes "update_sequence playhead p sequence = Inr p'"
  shows "list_all (\<lambda>m. msg_type m = note_on) (message_queue p')"
proof -
  from assms obtain l tc where scan: "scan_notes playhead p (seq_notes sequence) ([], []) = Inr (l, tc)"
    by (auto simp: update_sequence_def split: if_splits sum.splits)
  then have tc: "tc = []" and l: "list_all (\<lambda>m. msg_type m = note_on) l"
    using scan_notes_returns [of playhead p "seq_notes sequence" "[]" "[]" l tc] by simp_all
  have "carry_over (message_queue p) (l, []) = Inr l"
    by (cases "message_queue p") simp_all
  with assms scan tc have "message_queue p' = sort_key msg_time l"
    by (auto simp: update_sequence_def split: if_splits)
  with l show ?thesis by (simp add: list_all_iff)
qed

text \<open>
  C1. \<^verbatim>\<open>update_sequence\<close> is documented to add, for every note the new sequence no
  longer closes, the note-off the previous sequence had scheduled. Two runs of the code at
  playhead 5. A player whose pitch 60 is on, with the note-off of 60 pending at time 10, is
  given a new sequence without notes: the new queue is empty, and no note-off for 60 is in
  it. A player is constructed, updates allowed, from a sequence with one tempo and the note
  of pitch 60 from 6 to 10: the constructor's own call of \<^verbatim>\<open>update_sequence\<close> raises
  \<^verbatim>\<open>AttributeError\<close>, as does the same update of an existing player.
\<close>

theorem update_sequence_synthesizes_no_note_off:
  "update_sequence 5
     \<lparr>outport = [], open_notes = [60],
      message_queue = [Message note_off 60 default_velocity 10], allow_updates = True\<rparr>
     \<lparr>tempos = [120], qpm = 120, total_time = 0, seq_notes = []\<rparr>
   = Inr \<lparr>outport = [], open_notes = [60], message_queue = [], allow_updates = True\<rparr> \<and>
   MidiPlayer_init 5 []
     \<lparr>tempos = [120], qpm = 120, total_time = 10,
      seq_notes = [\<lparr>pitch = 60, velocity = 100, start_time = 6, end_time = 10\<rparr>]\<rparr> True
   = Inl AttributeError \<and>
   update_sequence 5
     \<lparr>outport = [], open_notes = [], message_queue = [], allow_updates = True\<rparr>
     \<lparr>tempos = [120], qpm = 120, total_time = 10,
      seq_notes = [\<lparr>pitch = 60, velocity = 100, start_time = 6, end_time = 10\<rparr>]\<rparr>
   = Inl AttributeError"
  by (simp add: MidiPlayer_init_def update_sequence_def playhead_attr_def)

subsection \<open>MidiPlayer.run and MidiPlayer.stop\<close>

lemma run_main_idle:
  "message_queue p = [] \<Longrightarrow> \<not> allow_updates p \<Longrightarrow> run_main k now p = None"
  by (induction k) (simp_all add: run_step_def)

lemma run_step_note_off:
  assumes "message_queue p = Message note_off n v t # rest" "t \<le> now" "n \<in> set (open_notes p)"
  shows "run_step now p =
           (Continue, p\<lparr>message_queue := rest, open_notes := removeAll n (open_notes p),
                        outport := outport p @ [Message note_off n v t]\<rparr>)"
  using assms by (simp add: run_step_def Message_def set_remove_def)

lemma run_main_note_offs:
  "\<not> allow_updates p \<Longrightarrow> distinct ns \<Longrightarrow> set ns \<subseteq> set (open_notes p) \<Longrightarrow>
   message_queue p = map (\<lambda>n. Message note_off n v t) ns \<Longrightarrow> t \<le> now \<Longrightarrow>
   run_main k now p = None"
proof (induction ns arbitrary: p k)
  case Nil
  then show ?case by (simp add: run_main_idle)
next
  case (Cons n ns)
  show ?case
  proof (cases k)
    case 0
    then show ?thesis by simp
  next
    case (Suc k')
    let ?p' = "p\<lparr>message_queue := map (\<lambda>n. Message note_off n v t) ns,
                  open_notes := removeAll n (open_notes p),
                  outport := outport p @ [Message note_off n v t]\<rparr>"
    have step: "run_step now p = (Continue, ?p')"
      using Cons.prems by (intro run_step_note_off) simp_all
    have "run_main k' now ?p' = None"
      using Cons.prems by (intro Cons.IH) auto
    with step Suc show ?thesis by simp
  qed
qed

lemma discard_past_all_past:
  "list_all (\<lambda>m. msg_time m < now) q \<Longrightarrow> discard_past now q = Inl IndexError"
  by (induction q) simp_all

text \<open>
  C4. The comment in \<^verbatim>\<open>run\<close> says that with the queue empty the thread either waits
  for an update or returns, but the loop \<^verbatim>\<open>while True\<close> has no exit: with the queue
  empty and updates disabled a pass of the loop leaves the player as it was and the next
  pass begins, so after any number \<open>k\<close> of passes the thread is still running. In
  particular \<^verbatim>\<open>stop\<close>, called while the thread waits, does not return: the thread sends
  the note-offs that \<^verbatim>\<open>stop\<close> queued and then spins, and \<^verbatim>\<open>join\<close> waits for it for
  ever. The last two equations show it on a player that has sent the note-on of pitch 60
  and waits for an update: the first pass after \<^verbatim>\<open>stop\<close> sends the note-off, every
  later pass changes nothing.
\<close>

theorem player_run_never_returns:
  "run_main k now (p\<lparr>message_queue := [], allow_updates := False\<rparr>) = None \<and>
   player_stop k now p = None \<and>
   run_step 5
     (stop_locked 5
        \<lparr>outport = [Message note_on 60 100 4], open_notes = [60], message_queue = [],
         allow_updates = True\<rparr>)
   = (Continue,
      \<lparr>outport = [Message note_on 60 100 4, Message note_off 60 default_velocity 5],
        open_notes = [], message_queue = [], allow_updates = False\<rparr>) \<and>
   run_step 6
     \<lparr>outport = [Message note_on 60 100 4, Message note_off 60 default_velocity 5],
        open_notes = [], message_queue = [], allow_updates = False\<rparr>
   = (Continue,
      \<lparr>outport = [Message note_on 60 100 4, Message note_off 60 default_velocity 5],
        open_notes = [], message_queue = [], allow_updates = False\<rparr>)"
proof -
  have idle: "run_main k now (p\<lparr>message_queue := [], allow_updates := False\<rparr>) = None"
    by (rule run_main_idle) simp_all
  have "run_main k now (stop_locked now p) = None"
    by (rule run_main_note_offs
          [where ns = "remdups (open_notes p)" and t = now and v = default_velocity])
       (simp_all add: stop_locked_def)
  then have stop: "player_stop k now p = None"
    by (simp add: player_stop_def)
  have trace:
    "run_step 5
       (stop_locked 5
          \<lparr>outport = [Message note_on 60 100 4], open_notes = [60], message_queue = [],
         allow_updates = True\<rparr>)
     = (Continue,
        \<lparr>outport = [Message note_on 60 100 4, Message note_off 60 default_velocity 5],
        open_notes = [], message_queue = [], allow_updates = False\<rparr>)"
    "run_step 6
       \<lparr>outport = [Message note_on 60 100 4, Message note_off 60 default_velocity 5],
        open_notes = [], message_queue = [], allow_updates = False\<rparr>
     = (Continue,
        \<lparr>outport = [Message note_on 60 100 4, Message note_off 60 default_velocity 5],
        open_notes = [], message_queue = [], allow_updates = False\<rparr>)"
    by (simp_all add: run_step_def stop_locked_def Message_def set_remove_def)
  from idle stop trace show ?thesis by blast
qed

text \<open>
  C10. The first loop of \<^verbatim>\<open>run\<close> reads \<^verbatim>\<open>self._message_queue[0]\<close> without testing
  that the queue has an element: on an empty queue the thread dies of an
  \<^verbatim>\<open>IndexError\<close>. The constructor accepts a sequence with one tempo and no notes and
  leaves the queue empty, so the thread of such a player fails at once; and a player whose
  only queued message is dated 10 fails when its thread starts at clock 11, after the
  message has been discarded.
\<close>

theorem player_run_indexes_empty_queue:
  "player_run k now (p\<lparr>message_queue := []\<rparr>)
     = Some (Fail IndexError, p\<lparr>message_queue := []\<rparr>) \<and>
   MidiPlayer_init 5 [] \<lparr>tempos = [120], qpm = 120, total_time = 0, seq_notes = []\<rparr> False
     = Inr \<lparr>outport = [], open_notes = [], message_queue = [], allow_updates = False\<rparr> \<and>
   player_run k 6
     \<lparr>outport = [], open_notes = [], message_queue = [], allow_updates = False\<rparr>
     = Some (Fail IndexError,
             \<lparr>outport = [], open_notes = [], message_queue = [], allow_updates = False\<rparr>) \<and>
   MidiPlayer_init 5 []
     \<lparr>tempos = [120], qpm = 120, total_time = 0,
      seq_notes = [\<lparr>pitch = 60, velocity = 100, start_time = 10, end_time = 1\<rparr>]\<rparr> False
     = Inr \<lparr>outport = [], open_notes = [], message_queue = [Message note_on 60 100 10],
            allow_updates = False\<rparr> \<and>
   player_run k 11
     \<lparr>outport = [], open_notes = [], message_queue = [Message note_on 60 100 10],
      allow_updates = False\<rparr>
     = Some (Fail IndexError,
             \<lparr>outport = [], open_notes = [], message_queue = [], allow_updates = False\<rparr>)"
  by (simp add: player_run_def MidiPlayer_init_def update_sequence_def Message_def)

subsection \<open>MidiHub.\_handle\_message\<close>

text \<open>A message with its time set is delivered to every live captor without an exception.\<close>

lemma deliver_stamped:
  "msg_time msg \<noteq> 0 \<Longrightarrow>
   deliver ts msg = (map (\<lambda>t. t\<lparr>receive_queue := receive_queue t @ [Some msg]\<rparr>) ts, None)"
  by (induction ts) (simp_all add: receive_def)

lemma handle_message_stamped:
  "msg_time msg \<noteq> 0 \<Longrightarrow>
   handle_message h msg =
     passthrough_message
       ((if format_as_string msg \<in> set (signals h)
         then h\<lparr>notified := notified h @ [format_as_string msg]\<rparr> else h)
        \<lparr>capture_threads :=
           map (\<lambda>t. t\<lparr>receive_queue := receive_queue t @ [Some msg]\<rparr>)
             (filter is_alive (capture_threads h))\<rparr>) msg"
  by (simp add: handle_message_def deliver_stamped Let_def)

lemma set_len_card: "set_len xs = card (set xs)"
  by (simp add: set_len_def length_remdups_card_conv)

lemma removeAll_single: "set xs \<subseteq> {x} \<Longrightarrow> removeAll x xs = []"
  by (induction xs) auto

lemma set_len_le_1_hd:
  assumes "set_len (x # ys) \<le> 1"
  shows "set (x # ys) = {x}"
proof -
  have "card (set (x # ys)) \<le> Suc 0" using assms by (simp add: set_len_card)
  then have "\<forall>a\<in>set (x # ys). \<forall>b\<in>set (x # ys). a = b"
    by (subst (asm) card_le_Suc0_iff_eq) simp_all
  then have "\<forall>b\<in>set (x # ys). b = x" by (metis list.set_intros(1))
  then show ?thesis by auto
qed

text \<open>The passthrough part keeps a monophonic hub's set of open notes at one pitch at most.\<close>

lemma passthrough_message_len:
  assumes "hub_texture_type h = MONOPHONIC" "set_len (hub_open_notes h) \<le> 1"
  shows "set_len (hub_open_notes (fst (passthrough_message h msg))) \<le> 1"
proof (cases "hub_open_notes h")
  case Nil
  then show ?thesis
    using assms
    by (simp add: passthrough_message_def send_def remove_message_def set_add_def set_len_def
          Let_def)
next
  case (Cons x ys)
  with assms(2) have "set (x # ys) = {x}" by (intro set_len_le_1_hd) simp
  then have "removeAll x (x # ys) = []" by (intro removeAll_single) simp
  then show ?thesis
    using assms Cons
    by (simp add: passthrough_message_def send_def remove_message_def set_add_def set_pop_def
          set_len_def Let_def)
qed

lemma handle_message_open_notes:
  "hub_open_notes (fst (handle_message h msg)) = hub_open_notes h \<or>
   (\<exists>h'. hub_open_notes h' = hub_open_notes h \<and> hub_texture_type h' = hub_texture_type h \<and>
         hub_open_notes (fst (handle_message h msg))
           = hub_open_notes (fst (passthrough_message h' msg)))"
proof (cases "deliver (filter is_alive (capture_threads h)) msg")
  case (Pair ts r)
  show ?thesis
  proof (cases r)
    case None
    let ?h' = "(if format_as_string msg \<in> set (signals h)
                then h\<lparr>notified := notified h @ [format_as_string msg]\<rparr> else h)
               \<lparr>capture_threads := ts\<rparr>"
    have "handle_message h msg = passthrough_message ?h' msg"
      using Pair None by (simp add: handle_message_def Let_def)
    moreover have "hub_open_notes ?h' = hub_open_notes h"
      "hub_texture_type ?h' = hub_texture_type h"
      by simp_all
    ultimately show ?thesis by metis
  next
    case (Some e)
    then show ?thesis using Pair by (simp add: handle_message_def Let_def)
  qed
qed

lemma handle_message_len:
  assumes "hub_texture_type h = MONOPHONIC" "set_len (hub_open_notes h) \<le> 1"
  shows "set_len (hub_open_notes (fst (handle_message h msg))) \<le> 1"
  using handle_message_open_notes [of h msg] assms passthrough_message_len
  by (metis (no_types, lifting))

lemma passthrough_message_texture:
  "hub_texture_type (fst (passthrough_message h msg)) = hub_texture_type h"
  by (simp add: passthrough_message_def send_def remove_message_def set_pop_def Let_def
        split: list.splits)

lemma handle_message_texture:
  "hub_texture_type (fst (handle_message h msg)) = hub_texture_type h"
  by (cases "deliver (filter is_alive (capture_threads h)) msg")
     (simp add: handle_message_def Let_def passthrough_message_texture split: option.splits)

lemma handle_messages_len:
  "hub_texture_type h = MONOPHONIC \<Longrightarrow> set_len (hub_open_notes h) \<le> 1 \<Longrightarrow>
   set_len (hub_open_notes (handle_messages h msgs)) \<le> 1"
  unfolding handle_messages_def
proof (induction msgs arbitrary: h)
  case Nil
  then show ?case by simp
next
  case (Cons m msgs)
  have "hub_texture_type (fst (handle_message h m)) = MONOPHONIC"
    using Cons.prems(1) by (simp add: handle_message_texture)
  moreover have "set_len (hub_open_notes (fst (handle_message h m))) \<le> 1"
    using Cons.prems by (rule handle_message_len)
  ultimately show ?case using Cons.IH by simp
qed

lemma note_on_while_sounding:
  assumes "hub_texture_type h = MONOPHONIC" "hub_passthrough h" "msg_type msg = note_on"
    "msg_time msg \<noteq> 0" "set (hub_open_notes h) = {p}"
  shows "snd (handle_message h msg) = None \<and>
         hub_outport (fst (handle_message h msg))
           = hub_outport h @ [Message note_off p default_velocity 0, msg] \<and>
         hub_open_notes (fst (handle_message h msg)) = [msg_note msg]"
proof -
  obtain x ys where xs: "hub_open_notes h = x # ys"
    using assms(5) by (cases "hub_open_notes h") auto
  with assms(5) have x: "x = p" by auto
  have len: "set_len (hub_open_notes h) \<le> 1"
    using assms(5) by (simp add: set_len_card)
  have gone: "removeAll p (x # ys) = []"
    using assms(5) xs by (intro removeAll_single) simp
  show ?thesis
    using assms(1-4) xs x len gone
    by (simp add: handle_message_stamped passthrough_message_def send_def set_pop_def
          set_add_def Let_def)
qed

lemma note_off_of_sounding_pitch:
  assumes "hub_texture_type h = MONOPHONIC" "hub_passthrough h" "msg_type msg = note_off"
    "msg_time msg \<noteq> 0" "set (hub_open_notes h) = {msg_note msg}"
  shows "snd (handle_message h msg) = Some KeyError \<and>
         hub_outport (fst (handle_message h msg)) = hub_outport h @ [msg] \<and>
         hub_open_notes (fst (handle_message h msg)) = hub_open_notes h"
proof -
  have len: "set_len (hub_open_notes h) \<le> 1"
    using assms(5) by (simp add: set_len_card)
  show ?thesis
    using assms len
    by (simp add: handle_message_stamped passthrough_message_def send_def remove_message_def
          Let_def)
qed

lemma first_note_on:
  "handle_message (MidiHub_init MONOPHONIC True) (Message note_on 60 100 1)
   = ((MidiHub_init MONOPHONIC True)
        \<lparr>hub_open_notes := [60], hub_outport := [Message note_on 60 100 1]\<rparr>, None)"
  by (simp add: handle_message_def passthrough_message_def MidiHub_init_def Message_def
        send_def set_len_def set_add_def)

text \<open>
  C3. Under monophonic texture with passthrough enabled, a dispatched note-off for the
  pitch that is sounding is sent to the output, and then the call raises \<^verbatim>\<open>KeyError\<close>:
  the removal is given the message instead of its pitch. The pitch stays in the set of open
  notes.
\<close>

theorem monophonic_note_off_leaves_pitch_open:
  "hub_texture_type h = MONOPHONIC \<Longrightarrow> hub_passthrough h \<Longrightarrow> msg_type msg = note_off \<Longrightarrow>
   msg_time msg \<noteq> 0 \<Longrightarrow> set (hub_open_notes h) = {msg_note msg} \<Longrightarrow>
   snd (handle_message h msg) = Some KeyError \<and>
   hub_outport (fst (handle_message h msg)) = hub_outport h @ [msg] \<and>
   hub_open_notes (fst (handle_message h msg)) = hub_open_notes h"
  by (rule note_off_of_sounding_pitch)

theorem monophonic_note_off_leaves_pitch_open_witness:
  "snd (handle_message
          (fst (handle_message (MidiHub_init MONOPHONIC True) (Message note_on 60 100 1)))
          (Message note_off 60 0 2)) = Some KeyError \<and>
   hub_outport
     (fst (handle_message
             (fst (handle_message (MidiHub_init MONOPHONIC True) (Message note_on 60 100 1)))
             (Message note_off 60 0 2)))
     = [Message note_on 60 100 1, Message note_off 60 0 2] \<and>
   hub_open_notes
     (fst (handle_message
             (fst (handle_message (MidiHub_init MONOPHONIC True) (Message note_on 60 100 1)))
             (Message note_off 60 0 2)))
     = [60]"
proof -
  let ?h = "fst (handle_message (MidiHub_init MONOPHONIC True) (Message note_on 60 100 1))"
  let ?m = "Message note_off 60 0 2"
  have h: "?h = (MidiHub_init MONOPHONIC True)
                  \<lparr>hub_open_notes := [60], hub_outport := [Message note_on 60 100 1]\<rparr>"
    by (simp add: first_note_on)
  have "hub_texture_type ?h = MONOPHONIC" "hub_passthrough ?h" "msg_type ?m = note_off"
    "msg_time ?m \<noteq> 0" "set (hub_open_notes ?h) = {msg_note ?m}"
    unfolding h by (simp_all add: MidiHub_init_def Message_def)
  from monophonic_note_off_leaves_pitch_open [OF this]
  show ?thesis unfolding h by simp
qed

text \<open>
  C6. Under monophonic texture the hub's set of open notes holds at most one pitch before
  and after every dispatch by \<^verbatim>\<open>_handle_message\<close>, whatever the message and whether or
  not the dispatch raises; so it does after any sequence of dispatches to a newly
  constructed hub. With passthrough enabled, a stamped note-on that arrives while the pitch
  \<open>p\<close> is sounding makes the hub send a synthesized note-off for \<open>p\<close> and then the note-on,
  and leaves the new pitch as the only open note. Feeding note-on 60 and then note-on 64
  puts note-on 60, note-off 60, note-on 64 on the output, in that order.
\<close>

theorem monophonic_open_notes_at_most_one:
  "(hub_texture_type h = MONOPHONIC \<and> set_len (hub_open_notes h) \<le> 1 \<longrightarrow>
      set_len (hub_open_notes (fst (handle_message h msg))) \<le> 1) \<and>
   set_len (hub_open_notes (handle_messages (MidiHub_init MONOPHONIC pt) msgs)) \<le> 1 \<and>
   (hub_texture_type h = MONOPHONIC \<and> hub_passthrough h \<and> msg_type msg = note_on \<and>
    msg_time msg \<noteq> 0 \<and> set (hub_open_notes h) = {p} \<longrightarrow>
      snd (handle_message h msg) = None \<and>
      hub_outport (fst (handle_message h msg))
        = hub_outport h @ [Message note_off p default_velocity 0, msg] \<and>
      hub_open_notes (fst (handle_message h msg)) = [msg_note msg]) \<and>
   hub_outport
     (handle_messages (MidiHub_init MONOPHONIC True)
        [Message note_on 60 100 1, Message note_on 64 100 2])
     = [Message note_on 60 100 1, Message note_off 60 default_velocity 0,
        Message note_on 64 100 2]"
proof -
  have one: "hub_texture_type h = MONOPHONIC \<and> set_len (hub_open_notes h) \<le> 1 \<longrightarrow>
               set_len (hub_open_notes (fst (handle_message h msg))) \<le> 1"
    using handle_message_len [of h msg] by blast
  have run: "set_len (hub_open_notes (handle_messages (MidiHub_init MONOPHONIC pt) msgs)) \<le> 1"
    by (rule handle_messages_len) (simp_all add: MidiHub_init_def set_len_def)
  have on: "hub_texture_type h = MONOPHONIC \<and> hub_passthrough h \<and> msg_type msg = note_on \<and>
            msg_time msg \<noteq> 0 \<and> set (hub_open_notes h) = {p} \<longrightarrow>
              snd (handle_message h msg) = None \<and>
              hub_outport (fst (handle_message h msg))
                = hub_outport h @ [Message note_off p default_velocity 0, msg] \<and>
              hub_open_notes (fst (handle_message h msg)) = [msg_note msg]"
    using note_on_while_sounding [of h msg p] by blast
  let ?h = "(MidiHub_init MONOPHONIC True)
              \<lparr>hub_open_notes := [60], hub_outport := [Message note_on 60 100 1]\<rparr>"
  have "hub_outport (fst (handle_message ?h (Message note_on 64 100 2)))
          = hub_outport ?h @ [Message note_off 60 default_velocity 0, Message note_on 64 100 2]"
    using note_on_while_sounding [of ?h "Message note_on 64 100 2" 60]
    by (simp add: MidiHub_init_def Message_def)
  then have example:
    "hub_outport
       (handle_messages (MidiHub_init MONOPHONIC True)
          [Message note_on 60 100 1, Message note_on 64 100 2])
     = [Message note_on 60 100 1, Message note_off 60 default_velocity 0,
        Message note_on 64 100 2]"
    by (simp add: handle_messages_def first_note_on)
  from one run on example show ?thesis by blast
qed

theorem monophonic_open_notes_at_most_one_witness:
  "set_len (hub_open_notes
      (fst (handle_message
              ((MidiHub_init MONOPHONIC True)
                 \<lparr>hub_open_notes := [60], hub_outport := [Message note_on 60 100 1]\<rparr>)
              (Message note_on 64 100 2)))) \<le> 1 \<and>
   snd (handle_message
          ((MidiHub_init MONOPHONIC True)
             \<lparr>hub_open_notes := [60], hub_outport := [Message note_on 60 100 1]\<rparr>)
          (Message note_on 64 100 2)) = None \<and>
   hub_outport
     (fst (handle_message
             ((MidiHub_init MONOPHONIC True)
                \<lparr>hub_open_notes := [60], hub_outport := [Message note_on 60 100 1]\<rparr>)
             (Message note_on 64 100 2)))
     = [Message note_on 60 100 1, Message note_off 60 default_velocity 0,
        Message note_on 64 100 2] \<and>
   hub_open_notes
     (fst (handle_message
             ((MidiHub_init MONOPHONIC True)
                \<lparr>hub_open_notes := [60], hub_outport := [Message note_on 60 100 1]\<rparr>)
             (Message note_on 64 100 2)))
     = [64]"
proof -
  let ?h = "(MidiHub_init MONOPHONIC True)
              \<lparr>hub_open_notes := [60], hub_outport := [Message note_on 60 100 1]\<rparr>"
  let ?m = "Message note_on 64 100 2"
  have pre: "hub_texture_type ?h = MONOPHONIC \<and> set_len (hub_open_notes ?h) \<le> 1"
    "hub_texture_type ?h = MONOPHONIC \<and> hub_passthrough ?h \<and> msg_type ?m = note_on \<and>
     msg_time ?m \<noteq> 0 \<and> set (hub_open_notes ?h) = {60}"
    by (simp_all add: MidiHub_init_def Message_def set_len_def)
  have out: "hub_outport ?h = [Message note_on 60 100 1]" "msg_note ?m = 64"
    by (simp_all add: Message_def)
  from monophonic_open_notes_at_most_one [of ?h ?m True "[]" 60] pre
  have "set_len (hub_open_notes (fst (handle_message ?h ?m))) \<le> 1 \<and>
        snd (handle_message ?h ?m) = None \<and>
        hub_outport (fst (handle_message ?h ?m))
          = hub_outport ?h @ [Message note_off 60 default_velocity 0, ?m] \<and>
        hub_open_notes (fst (handle_message ?h ?m)) = [msg_note ?m]"
    by blast
  then show ?thesis unfolding out by (simp add: set_len_def)
qed

subsection \<open>MidiHub.capture\_sequence\<close>

text \<open>
  C5. With neither a stop time nor a stop signal \<^verbatim>\<open>capture_sequence\<close> raises the hub
  exception. With one of them it passes \<^verbatim>\<open>start_time\<close> where \<^verbatim>\<open>start_capture\<close> takes
  \<^verbatim>\<open>qpm\<close> and \<^verbatim>\<open>qpm\<close> where it takes \<^verbatim>\<open>start_time\<close>: what it returns is what the
  documented sequence of calls returns for the two values exchanged. For the tempo 120, the
  start time 10 and the stop time 20, called at clock 5 with no message arriving, it
  returns a sequence with the tempo 10 where the documented calls return the tempo 120.
\<close>

theorem capture_sequence_exchanges_qpm_and_start_time:
  "capture_sequence now h q start_t None None = Some (Inl MidiHubException) \<and>
   capture_sequence now h q start_t (Some stop_t) stop_sig
     = capture_sequence_spec now h start_t q (Some stop_t) stop_sig \<and>
   capture_sequence now h q start_t stop_t' (Some sg)
     = capture_sequence_spec now h start_t q stop_t' (Some sg) \<and>
   capture_sequence 5 (MidiHub_init MONOPHONIC True) 120 10 (Some 20) None
     = Some (Inr \<lparr>tempos = [], qpm = 10, total_time = 20, seq_notes = []\<rparr>) \<and>
   capture_sequence_spec 5 (MidiHub_init MONOPHONIC True) 120 10 (Some 20) None
     = Some (Inr \<lparr>tempos = [], qpm = 120, total_time = 20, seq_notes = []\<rparr>)"
proof -
  have general:
    "capture_sequence now h q start_t None None = Some (Inl MidiHubException)"
    "capture_sequence now h q start_t (Some stop_t) stop_sig
       = capture_sequence_spec now h start_t q (Some stop_t) stop_sig"
    "capture_sequence now h q start_t stop_t' (Some sg)
       = capture_sequence_spec now h start_t q stop_t' (Some sg)"
    by (simp_all add: capture_sequence_def capture_sequence_spec_def)
  have code:
    "capture_sequence 5 (MidiHub_init MONOPHONIC True) 120 10 (Some 20) None
       = Some (Inr \<lparr>tempos = [], qpm = 10, total_time = 20, seq_notes = []\<rparr>)"
    by (simp add: capture_sequence_def start_capture_def join_def run_to_end_def
          captor_run_def start_def MidiCaptor_init_def deadline_def ended_def
          finish_capture_def captured_sequence_def is_alive_def NoteSequence_def
          MidiHub_init_def Let_def)
  have spec:
    "capture_sequence_spec 5 (MidiHub_init MONOPHONIC True) 120 10 (Some 20) None
       = Some (Inr \<lparr>tempos = [], qpm = 120, total_time = 20, seq_notes = []\<rparr>)"
    by (simp add: capture_sequence_spec_def start_capture_def join_def run_to_end_def
          captor_run_def start_def MidiCaptor_init_def deadline_def ended_def
          finish_capture_def captured_sequence_def is_alive_def NoteSequence_def
          MidiHub_init_def Let_def)
  from general code spec show ?thesis by blast
qed

end
